theory Spec2Isabelle
  imports Complex_Main
begin

section \<open>The values of Python's datetime module that the load shape uses\<close>

text \<open>
  \<^verbatim>\<open>multi_day_test_shape.py\<close> computes with \<^verbatim>\<open>datetime\<close>, \<^verbatim>\<open>timedelta\<close>, \<^verbatim>\<open>round\<close>,
  \<^verbatim>\<open>floor\<close>, \<^verbatim>\<open>sin\<close> and \<^verbatim>\<open>pi\<close>. Python's floats are modelled by the real numbers:
  \<^verbatim>\<open>sin\<close>, \<^verbatim>\<open>pi\<close> and the arithmetic are exact here, so the rounding error of IEEE
  doubles is outside the model. Everything else follows the library: a \<^verbatim>\<open>timedelta\<close> has
  a resolution of one microsecond and a bounded number of days, a \<^verbatim>\<open>datetime\<close> lies
  between the years 1 and 9999, and leaving either range raises \<^verbatim>\<open>OverflowError\<close>.
\<close>

datatype error = OverflowError

text \<open>
  A \<^verbatim>\<open>timedelta\<close> is normalised to days, seconds in \<open>[0, 86400)\<close> and microseconds in
  \<open>[0, 10\<^sup>6)\<close>; it is kept here as its total number of microseconds, from which the
  three fields are read with Python's floor division.
\<close>

type_synonym timedelta = int

definition us_per_second :: int where
  "us_per_second = 1000000"

definition us_per_day :: int where
  "us_per_day = 86400 * 1000000"

definition td_days :: "timedelta \<Rightarrow> int" where
  "td_days td = td div us_per_day"

definition td_seconds :: "timedelta \<Rightarrow> int" where
  "td_seconds td = (td mod us_per_day) div us_per_second"

definition td_microseconds :: "timedelta \<Rightarrow> int" where
  "td_microseconds td = td mod us_per_second"

text \<open>The constructor's last step: \<^verbatim>\<open>if abs(d) > 999999999: raise OverflowError\<close>.\<close>

definition timedelta_new :: "int \<Rightarrow> error + timedelta" where
  "timedelta_new us =
     (if \<bar>td_days us\<bar> > 999999999 then Inl OverflowError else Inr us)"

text \<open>\<^verbatim>\<open>timedelta(days=d, hours=h)\<close>, for the class attribute \<^verbatim>\<open>run_duration\<close>.\<close>

definition timedelta_days_hours :: "int \<Rightarrow> int \<Rightarrow> timedelta" where
  "timedelta_days_hours d h = d * us_per_day + h * 3600 * us_per_second"

text \<open>
  \<^verbatim>\<open>timedelta.total_seconds()\<close>:
  \<^verbatim>\<open>((self.days * 86400 + self.seconds) * 10**6 + self.microseconds) / 10**6\<close>.
\<close>

definition total_seconds :: "timedelta \<Rightarrow> real" where
  "total_seconds td =
     real_of_int ((td_days td * 86400 + td_seconds td) * 10 ^ 6 + td_microseconds td) / 10 ^ 6"

text \<open>
  Python 3's \<^verbatim>\<open>round(x)\<close> with one argument returns the nearest integer and, at a tie,
  the even one (round half to even).
\<close>

definition py_round :: "real \<Rightarrow> int" where
  "py_round x =
     (let f = \<lfloor>x\<rfloor>; r = x - real_of_int f
      in if r < 1 / 2 then f
         else if 1 / 2 < r then f + 1
         else if even f then f else f + 1)"

text \<open>
  \<^verbatim>\<open>timedelta(seconds=x)\<close> for a float \<open>x\<close>: the seconds are scaled to microseconds and
  rounded to the nearest one, ties to even, then range-checked.
\<close>

definition timedelta_seconds :: "real \<Rightarrow> error + timedelta" where
  "timedelta_seconds x = timedelta_new (py_round (x * 1000000))"

text \<open>
  A naive \<^verbatim>\<open>datetime\<close>. The calendar date is kept as its proleptic Gregorian ordinal
  (the value of \<^verbatim>\<open>toordinal()\<close>, 1 for 0001-01-01), which is all that \<^verbatim>\<open>__add__\<close> and
  \<^verbatim>\<open>__sub__\<close> read of it.
\<close>

record datetime =
  ordinal :: int
  dt_hour :: int
  dt_minute :: int
  dt_second :: int
  dt_microsecond :: int

definition MAXORDINAL :: int where
  "MAXORDINAL = 3652059"

definition is_leap :: "int \<Rightarrow> bool" where
  "is_leap year = (year mod 4 = 0 \<and> (year mod 100 \<noteq> 0 \<or> year mod 400 = 0))"

definition days_before_year :: "int \<Rightarrow> int" where
  "days_before_year year =
     (let y = year - 1 in y * 365 + y div 4 - y div 100 + y div 400)"

definition DAYS_IN_MONTH :: "int list" where
  "DAYS_IN_MONTH = [31, 28, 31, 30, 31, 30, 31, 31, 30, 31, 30, 31]"

definition days_before_month :: "int \<Rightarrow> int \<Rightarrow> int" where
  "days_before_month year month =
     sum_list (take (nat (month - 1)) DAYS_IN_MONTH)
       + (if month > 2 \<and> is_leap year then 1 else 0)"

definition ymd2ord :: "int \<Rightarrow> int \<Rightarrow> int \<Rightarrow> int" where
  "ymd2ord year month day = days_before_year year + days_before_month year month + day"

text \<open>\<^verbatim>\<open>datetime(year, month, day, hour)\<close>: the remaining fields default to 0.\<close>

definition datetime_new :: "int \<Rightarrow> int \<Rightarrow> int \<Rightarrow> int \<Rightarrow> datetime" where
  "datetime_new year month day h =
     \<lparr>ordinal = ymd2ord year month day, dt_hour = h, dt_minute = 0, dt_second = 0,
      dt_microsecond = 0\<rparr>"

text \<open>
  The microseconds from the start of ordinal day 0 to the datetime: the value of the
  \<^verbatim>\<open>timedelta(self.toordinal(), hours=.., minutes=.., seconds=.., microseconds=..)\<close>
  that \<^verbatim>\<open>datetime.__add__\<close> builds first.
\<close>

definition dt_us :: "datetime \<Rightarrow> int" where
  "dt_us dt =
     ordinal dt * us_per_day
       + (dt_hour dt * 3600 + dt_minute dt * 60 + dt_second dt) * us_per_second
       + dt_microsecond dt"

text \<open>
  \<^verbatim>\<open>datetime.__add__(self, other)\<close>:
  \<^verbatim>\<open>
  delta = timedelta(self.toordinal(), hours=self._hour, minutes=self._minute,
                    seconds=self._second, microseconds=self._microsecond)
  delta += other
  hour, rem = divmod(delta.seconds, 3600)
  minute, second = divmod(rem, 60)
  if 0 < delta.days <= _MAXORDINAL:
      return type(self).combine(date.fromordinal(delta.days),
                                time(hour, minute, second, delta.microseconds, ...))
  raise OverflowError("result out of range")
  \<close>
\<close>

definition datetime_add :: "datetime \<Rightarrow> timedelta \<Rightarrow> error + datetime" where
  "datetime_add self other =
     (case timedelta_new (dt_us self + other) of
        Inl e \<Rightarrow> Inl e
      | Inr delta \<Rightarrow>
          (let h = td_seconds delta div 3600;
               rem = td_seconds delta mod 3600;
               m = rem div 60;
               s = rem mod 60
           in if 0 < td_days delta \<and> td_days delta \<le> MAXORDINAL
              then Inr \<lparr>ordinal = td_days delta, dt_hour = h, dt_minute = m, dt_second = s,
                        dt_microsecond = td_microseconds delta\<rparr>
              else Inl OverflowError))"

text \<open>
  \<^verbatim>\<open>datetime.__sub__(self, other)\<close> for two naive datetimes:
  \<^verbatim>\<open>
  days1 = self.toordinal(); days2 = other.toordinal()
  secs1 = self._second + self._minute * 60 + self._hour * 3600
  secs2 = other._second + other._minute * 60 + other._hour * 3600
  base = timedelta(days1 - days2, secs1 - secs2, self._microsecond - other._microsecond)
  return base
  \<close>
\<close>

definition datetime_sub :: "datetime \<Rightarrow> datetime \<Rightarrow> error + timedelta" where
  "datetime_sub self other =
     (let days1 = ordinal self; days2 = ordinal other;
          secs1 = dt_second self + dt_minute self * 60 + dt_hour self * 3600;
          secs2 = dt_second other + dt_minute other * 60 + dt_hour other * 3600
      in timedelta_new ((days1 - days2) * us_per_day + (secs1 - secs2) * us_per_second
                          + (dt_microsecond self - dt_microsecond other)))"

section \<open>The load shape\<close>

text \<open>
  The two class attributes of \<^verbatim>\<open>MultiDayTestShape\<close>. The third piece of state,
  \<^verbatim>\<open>start_time\<close>, only occurs in \<^verbatim>\<open>time.perf_counter() - self.start_time\<close>, the seconds
  since the test started; every function below takes that difference as its argument
  \<open>elapsed\<close>, and one evaluation of \<open>tick\<close> uses one reading of the clock.
\<close>

record shape =
  reference_dt :: datetime
  run_duration :: timedelta

text \<open>
  \<^verbatim>\<open>reference_dt: datetime = datetime(2025, 6, 15, 12)\<close> and
  \<^verbatim>\<open>run_duration: timedelta = timedelta(days=2, hours=12)\<close>.
\<close>

definition MultiDayTestShape :: shape where
  "MultiDayTestShape =
     \<lparr>reference_dt = datetime_new 2025 6 15 12, run_duration = timedelta_days_hours 2 12\<rparr>"

text \<open>
  \<^verbatim>\<open>_current_dt\<close>:
  \<^verbatim>\<open>self.reference_dt + timedelta(seconds=time.perf_counter()-self.start_time)\<close>.
\<close>

definition current_dt :: "shape \<Rightarrow> real \<Rightarrow> error + datetime" where
  "current_dt self elapsed =
     (case timedelta_seconds elapsed of
        Inl e \<Rightarrow> Inl e
      | Inr td \<Rightarrow> datetime_add (reference_dt self) td)"

text \<open>\<^verbatim>\<open>hour\<close>: \<^verbatim>\<open>self._current_dt.hour\<close>.\<close>

definition hour :: "shape \<Rightarrow> real \<Rightarrow> error + int" where
  "hour self elapsed =
     (case current_dt self elapsed of Inl e \<Rightarrow> Inl e | Inr cur \<Rightarrow> Inr (dt_hour cur))"

text \<open>
  \<^verbatim>\<open>minutes_since_ref_dt\<close>:
  \<^verbatim>\<open>(self._current_dt - self.reference_dt).total_seconds() / 60\<close>.
\<close>

definition minutes_since_ref_dt :: "shape \<Rightarrow> real \<Rightarrow> error + real" where
  "minutes_since_ref_dt self elapsed =
     (case current_dt self elapsed of
        Inl e \<Rightarrow> Inl e
      | Inr cur \<Rightarrow>
          (case datetime_sub cur (reference_dt self) of
             Inl e \<Rightarrow> Inl e
           | Inr td \<Rightarrow> Inr (total_seconds td / 60)))"

text \<open>\<^verbatim>\<open>hours_since_ref_dt\<close>: \<^verbatim>\<open>self.minutes_since_ref_dt / 60\<close>.\<close>

definition hours_since_ref_dt :: "shape \<Rightarrow> real \<Rightarrow> error + real" where
  "hours_since_ref_dt self elapsed =
     (case minutes_since_ref_dt self elapsed of Inl e \<Rightarrow> Inl e | Inr m \<Rightarrow> Inr (m / 60))"

text \<open>\<^verbatim>\<open>days_since_ref_dt\<close>: \<^verbatim>\<open>self.hours_since_ref_dt / 24\<close>.\<close>

definition days_since_ref_dt :: "shape \<Rightarrow> real \<Rightarrow> error + real" where
  "days_since_ref_dt self elapsed =
     (case hours_since_ref_dt self elapsed of Inl e \<Rightarrow> Inl e | Inr h \<Rightarrow> Inr (h / 24))"

text \<open>
  \<^verbatim>\<open>tick\<close>. Python's \<^verbatim>\<open>None\<close> is \<open>None\<close>, the returned pair is \<open>Some (users, rate)\<close>:
  \<^verbatim>\<open>
  if time.perf_counter()-self.start_time > self.run_duration.total_seconds():
      return None
  extra_users = 15 if self.hour in (12, 13, 18, 19) else 0
  desired_users = 5 * self.days_since_ref_dt
      + 10 * sin((self.days_since_ref_dt - floor(self.days_since_ref_dt)) * pi)
      + 10 + extra_users
  return max([0, round(desired_users)]), 100
  \<close>
\<close>

definition extra_users :: "int \<Rightarrow> real" where
  "extra_users h = (if h \<in> {12, 13, 18, 19} then 15 else 0)"

definition desired_users :: "real \<Rightarrow> int \<Rightarrow> real" where
  "desired_users d h =
     5 * d + 10 * sin ((d - real_of_int \<lfloor>d\<rfloor>) * pi) + 10 + extra_users h"

definition tick :: "shape \<Rightarrow> real \<Rightarrow> error + (int \<times> int) option" where
  "tick self elapsed =
     (if elapsed > total_seconds (run_duration self) then Inr None
      else
        (case hour self elapsed of
           Inl e \<Rightarrow> Inl e
         | Inr h \<Rightarrow>
             (case days_since_ref_dt self elapsed of
                Inl e \<Rightarrow> Inl e
              | Inr d \<Rightarrow> Inr (Some (max 0 (py_round (desired_users d h)), 100)))))"

section \<open>The formula as the specification words it\<close>

text \<open>
  The specification describes the result for the default constants as a function of the
  elapsed duration alone. These definitions follow its wording, with the elapsed duration
  given in seconds; they are compared with \<open>tick\<close> below. The reference instant is 12:00,
  so the hour of day after \<open>secs\<close> seconds is 12 plus the whole hours elapsed, modulo 24.
\<close>

definition spec_days_since_ref :: "real \<Rightarrow> real" where
  "spec_days_since_ref secs = secs / 86400"

definition spec_day_fraction :: "real \<Rightarrow> real" where
  "spec_day_fraction secs =
     spec_days_since_ref secs - real_of_int \<lfloor>spec_days_since_ref secs\<rfloor>"

definition spec_hour_of_day :: "real \<Rightarrow> int" where
  "spec_hour_of_day secs = (12 + \<lfloor>secs / 3600\<rfloor>) mod 24"

definition spec_extra_users :: "real \<Rightarrow> real" where
  "spec_extra_users secs = (if spec_hour_of_day secs \<in> {12, 13, 18, 19} then 15 else 0)"

definition spec_desired :: "real \<Rightarrow> real" where
  "spec_desired secs =
     5 * spec_days_since_ref secs + 10 * sin (spec_day_fraction secs * pi) + 10
       + spec_extra_users secs"

section \<open>Arithmetic of durations and of rounding\<close>

lemma td_fields_sum:
  "(td_days td * 86400 + td_seconds td) * 10 ^ 6 + td_microseconds td = td"
proof -
  define q where "q = td div 86400000000"
  define r where "r = td mod 86400000000"
  have m: "r mod 1000000 = td mod 1000000"
    unfolding r_def by (rule mod_mod_cancel) simp
  have a: "r = r div 1000000 * 1000000 + td mod 1000000"
    using div_mult_mod_eq [of r 1000000] m by simp
  have b: "td = q * 86400000000 + r"
    unfolding q_def r_def by simp
  have c: "(q * 86400 + r div 1000000) * 1000000 + td mod 1000000 = q * 86400000000 + r"
    using a by (simp add: algebra_simps)
  have d: "(10::int) ^ 6 = 1000000"
    by simp
  have "(td_days td * 86400 + td_seconds td) * 10 ^ 6 + td_microseconds td
          = (q * 86400 + r div 1000000) * 1000000 + td mod 1000000"
    unfolding td_days_def td_seconds_def td_microseconds_def us_per_day_def us_per_second_def
      q_def r_def d by simp
  also have "\<dots> = td"
    using b c by simp
  finally show ?thesis .
qed

lemma total_seconds_eq: "total_seconds td = real_of_int td / 1000000"
  unfolding total_seconds_def td_fields_sum by simp

lemma py_round_of_int: "py_round (real_of_int n) = n"
  by (simp add: py_round_def)

lemma py_round_floor_le: "\<lfloor>x\<rfloor> \<le> py_round x"
  unfolding py_round_def Let_def by simp

lemma py_round_le_floor: "py_round x \<le> \<lfloor>x\<rfloor> + 1"
  unfolding py_round_def Let_def by simp

lemma py_round_ge: "real_of_int n \<le> x \<Longrightarrow> n \<le> py_round x"
  using py_round_floor_le [of x] le_floor_iff [of n x] by linarith

lemma py_round_le: "x \<le> real_of_int n \<Longrightarrow> py_round x \<le> n"
  unfolding py_round_def Let_def by (auto; linarith)

lemma py_round_mono:
  assumes "x \<le> y"
  shows "py_round x \<le> py_round y"
proof (cases "\<lfloor>x\<rfloor> = \<lfloor>y\<rfloor>")
  case True
  then show ?thesis
    using assms unfolding py_round_def Let_def by auto
next
  case False
  then have "\<lfloor>x\<rfloor> + 1 \<le> \<lfloor>y\<rfloor>"
    using floor_mono [OF assms] by linarith
  then show ?thesis
    using py_round_le_floor [of x] py_round_floor_le [of y] by linarith
qed


lemma td_days_seconds_us:
  "td_days td * us_per_day + td_seconds td * us_per_second + td_microseconds td = td"
  using td_fields_sum [of td] unfolding us_per_day_def us_per_second_def
  by (simp add: algebra_simps)

lemma timedelta_new_Inr: "timedelta_new x = Inr y \<Longrightarrow> y = x"
  unfolding timedelta_new_def by (simp split: if_splits)

lemma hms_sum: "(x div 3600) * 3600 + ((x mod 3600) div 60) * 60 + (x mod 3600) mod 60 = (x::int)"
proof -
  have "(x mod 3600) div 60 * 60 + (x mod 3600) mod 60 = x mod 3600"
    by simp
  then show ?thesis
    using div_mult_mod_eq [of x 3600] by linarith
qed

lemma datetime_add_Inr:
  assumes "datetime_add self other = Inr cur"
  shows "dt_us cur = dt_us self + other"
    and "dt_hour cur = td_seconds (dt_us self + other) div 3600"
proof -
  define delta where "delta = dt_us self + other"
  have n: "timedelta_new delta = Inr delta"
    using assms unfolding datetime_add_def delta_def
    by (auto split: sum.splits dest: timedelta_new_Inr)
  have cur: "cur = \<lparr>ordinal = td_days delta, dt_hour = td_seconds delta div 3600,
      dt_minute = (td_seconds delta mod 3600) div 60, dt_second = (td_seconds delta mod 3600) mod 60,
      dt_microsecond = td_microseconds delta\<rparr>"
    using assms n unfolding datetime_add_def delta_def [symmetric]
    by (simp add: Let_def split: if_splits)
  have "dt_us cur = td_days delta * us_per_day + td_seconds delta * us_per_second
      + td_microseconds delta"
    unfolding dt_us_def cur using hms_sum [of "td_seconds delta"] by simp
  then show "dt_us cur = dt_us self + other"
    unfolding td_days_seconds_us delta_def .
  show "dt_hour cur = td_seconds (dt_us self + other) div 3600"
    unfolding cur delta_def by simp
qed

lemma datetime_sub_eq: "datetime_sub a b = timedelta_new (dt_us a - dt_us b)"
proof -
  have "(ordinal a - ordinal b) * us_per_day
      + (dt_second a + dt_minute a * 60 + dt_hour a * 3600
          - (dt_second b + dt_minute b * 60 + dt_hour b * 3600)) * us_per_second
      + (dt_microsecond a - dt_microsecond b) = dt_us a - dt_us b"
    unfolding dt_us_def by (simp add: algebra_simps)
  then show ?thesis
    unfolding datetime_sub_def Let_def by simp
qed

lemma days_since_ref_dt_Inr:
  assumes "timedelta_seconds elapsed = Inr td"
    and "datetime_add (reference_dt self) td = Inr cur"
  shows "days_since_ref_dt self elapsed = Inr (real_of_int td / 86400000000)"
proof -
  have c: "current_dt self elapsed = Inr cur"
    unfolding current_dt_def using assms by simp
  have "td = py_round (elapsed * 1000000)"
    using assms(1) unfolding timedelta_seconds_def by (rule timedelta_new_Inr)
  then have "timedelta_new td = Inr td"
    using assms(1) unfolding timedelta_seconds_def by simp
  then have "datetime_sub cur (reference_dt self) = Inr td"
    unfolding datetime_sub_eq datetime_add_Inr(1) [OF assms(2)] by simp
  then show ?thesis
    unfolding days_since_ref_dt_def hours_since_ref_dt_def minutes_since_ref_dt_def
    using c by (simp add: total_seconds_eq)
qed

lemma hour_Inr:
  assumes "timedelta_seconds elapsed = Inr td"
    and "datetime_add (reference_dt self) td = Inr cur"
  shows "hour self elapsed = Inr (td_seconds (dt_us (reference_dt self) + td) div 3600)"
  unfolding hour_def current_dt_def using assms datetime_add_Inr(2) [OF assms(2)] by simp

section \<open>The default configuration\<close>

lemma default_reference_us: "dt_us (reference_dt MultiDayTestShape) = 63885672000000000"
  by (simp add: MultiDayTestShape_def datetime_new_def dt_us_def ymd2ord_def
      days_before_year_def days_before_month_def DAYS_IN_MONTH_def is_leap_def
      us_per_day_def us_per_second_def)

lemma default_run_duration: "run_duration MultiDayTestShape = 216000000000"
  by (simp add: MultiDayTestShape_def timedelta_days_hours_def us_per_day_def us_per_second_def)

lemma default_run_seconds: "total_seconds (run_duration MultiDayTestShape) = 216000"
  by (simp add: default_run_duration total_seconds_eq)

lemma in_run_timedelta:
  assumes "0 \<le> elapsed" and "elapsed \<le> 216000"
  shows "timedelta_seconds elapsed = Inr (py_round (elapsed * 1000000))"
    and "0 \<le> py_round (elapsed * 1000000)"
    and "py_round (elapsed * 1000000) \<le> 216000000000"
proof -
  define td where "td = py_round (elapsed * 1000000)"
  have "real_of_int 0 \<le> elapsed * 1000000"
    using assms(1) by simp
  then show lo: "0 \<le> py_round (elapsed * 1000000)"
    by (rule py_round_ge)
  have "elapsed * 1000000 \<le> real_of_int 216000000000"
    using assms(2) by simp
  then show hi: "py_round (elapsed * 1000000) \<le> 216000000000"
    by (rule py_round_le)
  have "0 \<le> td div 86400000000" "td div 86400000000 \<le> 216000000000 div 86400000000"
    using lo hi unfolding td_def by (simp_all add: pos_imp_zdiv_nonneg_iff zdiv_mono1)
  then have "\<bar>td_days td\<bar> \<le> 999999999"
    unfolding td_days_def us_per_day_def by simp
  then show "timedelta_seconds elapsed = Inr (py_round (elapsed * 1000000))"
    unfolding timedelta_seconds_def timedelta_new_def td_def by simp
qed

lemma default_add_in_run:
  assumes "0 \<le> td" and "td \<le> 216000000000"
  shows "\<exists>cur. datetime_add (reference_dt MultiDayTestShape) td = Inr cur"
proof -
  define delta where "delta = 63885672000000000 + td"
  have "63885672000000000 div 86400000000 \<le> delta div 86400000000"
    unfolding delta_def using assms(1) by (intro zdiv_mono1) simp_all
  moreover have "delta div 86400000000 \<le> 63885888000000000 div 86400000000"
    unfolding delta_def using assms(2) by (intro zdiv_mono1) simp_all
  ultimately have d: "739417 \<le> td_days delta" "td_days delta \<le> 739420"
    unfolding td_days_def us_per_day_def by simp_all
  then have "timedelta_new delta = Inr delta"
    unfolding timedelta_new_def by simp
  then show ?thesis
    unfolding datetime_add_def default_reference_us delta_def [symmetric]
    using d by (simp add: Let_def MAXORDINAL_def)
qed

lemma default_hour_of_day:
  "td_seconds (63885672000000000 + td) div 3600 = (12 + td div 3600000000) mod 24"
proof -
  define a where "a = 63885672000000000 + td"
  have 1: "td_seconds a div 3600 = (a mod 86400000000) div 3600000000"
    unfolding td_seconds_def us_per_day_def us_per_second_def
    using zdiv_zmult2_eq [of 3600 "a mod 86400000000" 1000000] by simp
  have "a mod (3600000000 * 24) = 3600000000 * (a div 3600000000 mod 24) + a mod 3600000000"
    by (rule zmod_zmult2_eq) simp
  then have 2: "(a mod 86400000000) div 3600000000 = a div 3600000000 mod 24"
    by simp
  have "a = 17746020 * 3600000000 + td"
    unfolding a_def by simp
  then have 3: "a div 3600000000 = 17746020 + td div 3600000000"
    by simp
  have "(17746020 + td div 3600000000) mod 24 = (739417 * 24 + (12 + td div 3600000000)) mod 24"
    by simp
  also have "\<dots> = (12 + td div 3600000000) mod 24"
    by (rule mod_mult_self3)
  finally have 4: "(17746020 + td div 3600000000) mod 24 = (12 + td div 3600000000) mod 24" .
  show ?thesis
    unfolding a_def [symmetric] 1 2 3 4 ..
qed

section \<open>What one evaluation computes\<close>

text \<open>
  Past the run duration the guard returns \<open>None\<close> before anything else is evaluated.
\<close>
lemma tick_past_run_duration:
  "total_seconds (run_duration self) < elapsed \<Longrightarrow> tick self elapsed = Inr None"
  unfolding tick_def by simp

text \<open>
  When the two properties read by \<open>tick\<close> return, so does \<open>tick\<close>, and the number of
  days is the elapsed time rounded to whole microseconds, in days.
\<close>
lemma tick_from_properties:
  assumes "elapsed \<le> total_seconds (run_duration self)"
    and "hour self elapsed = Inr h" and "days_since_ref_dt self elapsed = Inr d"
  shows "tick self elapsed = Inr (Some (max 0 (py_round (desired_users d h)), 100))"
  unfolding tick_def using assms by simp

lemma days_since_ref_dt_value:
  assumes "days_since_ref_dt self elapsed = Inr d"
  shows "d = real_of_int (py_round (elapsed * 1000000)) / 86400000000"
proof -
  obtain cur where c: "current_dt self elapsed = Inr cur"
    using assms
    unfolding days_since_ref_dt_def hours_since_ref_dt_def minutes_since_ref_dt_def
    by (auto split: sum.splits)
  then obtain td where t: "timedelta_seconds elapsed = Inr td"
    and a: "datetime_add (reference_dt self) td = Inr cur"
    unfolding current_dt_def by (auto split: sum.splits)
  have "td = py_round (elapsed * 1000000)"
    using t unfolding timedelta_seconds_def by (rule timedelta_new_Inr)
  then show ?thesis
    using days_since_ref_dt_Inr [OF t a] assms by simp
qed

text \<open>
  With the class attributes as they stand, every elapsed time from 0 to the run duration
  lies within the ranges of \<^verbatim>\<open>timedelta\<close> and \<^verbatim>\<open>datetime\<close>: nothing raises, and the
  hour and the day count have closed forms in the elapsed microseconds.
\<close>
lemma tick_default_in_run:
  assumes "0 \<le> elapsed" and "elapsed \<le> 216000"
  defines "td \<equiv> py_round (elapsed * 1000000)"
  shows "timedelta_seconds elapsed = Inr td"
    and "hour MultiDayTestShape elapsed = Inr ((12 + td div 3600000000) mod 24)"
    and "days_since_ref_dt MultiDayTestShape elapsed = Inr (real_of_int td / 86400000000)"
    and "tick MultiDayTestShape elapsed =
          Inr (Some (max 0 (py_round (desired_users (real_of_int td / 86400000000)
                                        ((12 + td div 3600000000) mod 24))), 100))"
proof -
  note t = in_run_timedelta [OF assms(1,2), folded td_def]
  show s: "timedelta_seconds elapsed = Inr td"
    by (rule t(1))
  obtain cur where a: "datetime_add (reference_dt MultiDayTestShape) td = Inr cur"
    using default_add_in_run [OF t(2,3)] by blast
  show h: "hour MultiDayTestShape elapsed = Inr ((12 + td div 3600000000) mod 24)"
    using hour_Inr [OF s a] unfolding default_reference_us default_hour_of_day .
  show d: "days_since_ref_dt MultiDayTestShape elapsed = Inr (real_of_int td / 86400000000)"
    by (rule days_since_ref_dt_Inr [OF s a])
  show "tick MultiDayTestShape elapsed =
          Inr (Some (max 0 (py_round (desired_users (real_of_int td / 86400000000)
                                        ((12 + td div 3600000000) mod 24))), 100))"
    unfolding tick_def h d using assms(2) by (simp add: default_run_seconds)
qed

text \<open>The rounded clock readings and the formula at the instants used below.\<close>
lemma py_round_43200: "py_round (43200 * 1000000) = 43200000000"
  using py_round_of_int [of 43200000000] by simp

lemma py_round_86400: "py_round (86400 * 1000000) = 86400000000"
  using py_round_of_int [of 86400000000] by simp

lemma desired_users_half_day: "desired_users (1 / 2) 0 = 45 / 2"
proof -
  have f: "\<lfloor>1 / 2 :: real\<rfloor> = 0"
    by simp
  show ?thesis
    unfolding desired_users_def extra_users_def f by simp
qed

lemma py_round_45_halves: "py_round (45 / 2) = 22"
  unfolding py_round_def by simp

lemma tick_default_at_run_duration:
  "tick MultiDayTestShape 216000 = Inr (Some (32, 100))"
proof -
  have td: "py_round (216000 * 1000000) = 216000000000"
    using py_round_of_int [of 216000000000] by simp
  have f: "\<lfloor>5 / 2 :: real\<rfloor> = 2"
    by simp
  have d: "desired_users (5 / 2) 0 = 65 / 2"
    unfolding desired_users_def extra_users_def f by simp
  have r: "py_round (65 / 2) = 32"
    unfolding py_round_def by simp
  show ?thesis
    using tick_default_in_run(4) [of 216000] unfolding td by (simp add: d r)
qed

lemma tick_zero_duration_at_start:
  "tick (MultiDayTestShape\<lparr>run_duration := 0\<rparr>) 0 = Inr (Some (25, 100))"
proof -
  define self where "self = MultiDayTestShape\<lparr>run_duration := 0\<rparr>"
  have ref: "reference_dt self = reference_dt MultiDayTestShape"
    unfolding self_def by simp
  have rd: "total_seconds (run_duration self) = 0"
    unfolding self_def by (simp add: total_seconds_eq)
  have "hour self 0 = hour MultiDayTestShape 0"
    unfolding hour_def current_dt_def ref ..
  then have h: "hour self 0 = Inr 12"
    using tick_default_in_run(2) [of 0] by (simp add: py_round_of_int [of 0, simplified])
  have "days_since_ref_dt self 0 = days_since_ref_dt MultiDayTestShape 0"
    unfolding days_since_ref_dt_def hours_since_ref_dt_def minutes_since_ref_dt_def
      current_dt_def ref ..
  then have d: "days_since_ref_dt self 0 = Inr 0"
    using tick_default_in_run(3) [of 0] by (simp add: py_round_of_int [of 0, simplified])
  have u: "desired_users 0 12 = 25"
    unfolding desired_users_def extra_users_def by simp
  have r: "py_round 25 = 25"
    using py_round_of_int [of 25] by simp
  show ?thesis
    unfolding self_def [symmetric] tick_def rd h d by (simp add: u r)
qed

lemma desired_users_ge_baseline:
  assumes "0 \<le> d"
  shows "10 \<le> desired_users d h"
proof -
  define f where "f = d - real_of_int \<lfloor>d\<rfloor>"
  have "0 \<le> f" and "f \<le> 1"
    unfolding f_def by linarith+
  then have "0 \<le> f * pi" and "f * pi \<le> pi"
    by (simp_all add: mult_left_le_one_le)
  then have "0 \<le> sin (f * pi)"
    by (rule sin_ge_zero)
  moreover have "0 \<le> extra_users h"
    unfolding extra_users_def by simp
  ultimately show ?thesis
    unfolding desired_users_def f_def [symmetric] using assms by simp
qed

lemma spec_desired_timedelta:
  "spec_desired (total_seconds td) =
     desired_users (real_of_int td / 86400000000) ((12 + td div 3600000000) mod 24)"
proof -
  have "real_of_int td / 1000000 / 3600 = real_of_int td / real_of_int 3600000000"
    by simp
  then have "\<lfloor>real_of_int td / 1000000 / 3600\<rfloor> = td div 3600000000"
    by (simp only: floor_divide_of_int_eq)
  then have h: "spec_hour_of_day (total_seconds td) = (12 + td div 3600000000) mod 24"
    unfolding spec_hour_of_day_def total_seconds_eq by simp
  have d: "spec_days_since_ref (total_seconds td) = real_of_int td / 86400000000"
    unfolding spec_days_since_ref_def total_seconds_eq by simp
  show ?thesis
    unfolding spec_desired_def spec_day_fraction_def spec_extra_users_def d h
      desired_users_def extra_users_def ..
qed

text \<open>
  A reading that is not a whole number of microseconds: four tenths of a microsecond
  before the end of the first day. The code rounds it up to one day, which moves the
  virtual clock from 11:59:59 to 12:00:00; the specification's formula at the reading
  itself still sees hour 11.
\<close>

lemma py_round_nearest:
  assumes "real_of_int n - 1 / 2 < x" and "x < real_of_int n + 1 / 2"
  shows "py_round x = n"
proof -
  have "\<lfloor>x\<rfloor> = n \<or> \<lfloor>x\<rfloor> = n - 1"
    using assms by linarith
  then show ?thesis
  proof
    assume f: "\<lfloor>x\<rfloor> = n"
    then have "x - real_of_int \<lfloor>x\<rfloor> < 1 / 2"
      using assms(2) by simp
    then show ?thesis
      unfolding py_round_def Let_def using f by simp
  next
    assume f: "\<lfloor>x\<rfloor> = n - 1"
    then have "1 / 2 < x - real_of_int \<lfloor>x\<rfloor>"
      using assms(1) by simp
    then show ?thesis
      unfolding py_round_def Let_def using f by simp
  qed
qed

lemma py_round_on_grid:
  assumes "x = real_of_int \<lfloor>x\<rfloor>"
  shows "real_of_int (py_round x) = x"
  using py_round_of_int [of "\<lfloor>x\<rfloor>"] assms by simp

lemma py_round_before_noon: "py_round ((86400 - 1 / 2500000) * 1000000) = 86400000000"
  by (rule py_round_nearest) simp_all

lemma tick_before_second_noon:
  "tick MultiDayTestShape (86400 - 1 / 2500000) = Inr (Some (30, 100))"
proof -
  have d: "desired_users 1 12 = 30"
    unfolding desired_users_def extra_users_def by simp
  have r: "py_round 30 = 30"
    using py_round_of_int [of 30] by simp
  show ?thesis
    using tick_default_in_run(4) [of "86400 - 1 / 2500000"] unfolding py_round_before_noon
    by (simp add: d r)
qed

lemma spec_desired_before_second_noon:
  "py_round (spec_desired (86400 - 1 / 2500000)) = 15"
proof -
  define d :: real where "d = 1 - 1 / 216000000000"
  have dd: "spec_days_since_ref (86400 - 1 / 2500000) = d"
    unfolding spec_days_since_ref_def d_def by simp
  have fl: "\<lfloor>d\<rfloor> = 0"
    unfolding d_def by simp
  have "\<lfloor>(86400 - 1 / 2500000) / 3600 :: real\<rfloor> = 23"
    by simp
  then have h: "spec_hour_of_day (86400 - 1 / 2500000) = 11"
    unfolding spec_hour_of_day_def by simp
  have y: "spec_desired (86400 - 1 / 2500000) = 5 * d + 10 * sin (d * pi) + 10"
    unfolding spec_desired_def spec_day_fraction_def spec_extra_users_def dd fl h by simp
  have d0: "0 \<le> d * pi" and d1: "d * pi \<le> pi"
    unfolding d_def by (simp_all add: mult_left_le_one_le)
  have lo: "0 \<le> sin (d * pi)"
    using d0 d1 by (rule sin_ge_zero)
  have "sin (d * pi) = sin (pi - d * pi)"
    by (simp only: sin_pi_minus)
  also have "\<dots> \<le> pi - d * pi"
    using d1 by (intro sin_x_le_x) simp
  also have "\<dots> = pi / 216000000000"
    unfolding d_def by (simp add: algebra_simps)
  also have "\<dots> \<le> 4 / 216000000000"
    using pi_less_4 by simp
  finally have hi: "sin (d * pi) \<le> 4 / 216000000000" .
  have "real_of_int 15 - 1 / 2 < 5 * d + 10 * sin (d * pi) + 10"
    using lo unfolding d_def by simp
  moreover have "5 * d + 10 * sin (d * pi) + 10 < real_of_int 15 + 1 / 2"
    using hi unfolding d_def by simp
  ultimately show ?thesis
    unfolding y by (rule py_round_nearest)
qed

section \<open>The claims\<close>

text \<open>
  C1, as amended. For every elapsed time from 0 up to and including the run duration,
  \<open>tick\<close> returns a target with ramp rate 100 whose concurrency is
  \<open>max(0, round(desired))\<close>, where \<open>desired\<close> is the specification's formula
  \<open>5 * daysSinceRef + 10 * sin(dayFraction * pi) + 10 + extraUsers\<close> evaluated at the
  elapsed time rounded to the nearest whole microsecond (ties to even), and \<open>round\<close> is
  Python's. For an elapsed time that is a whole number of microseconds this is the formula
  at the elapsed time itself.
\<close>
theorem tick_formula:
  assumes "0 \<le> elapsed" and "elapsed \<le> total_seconds (run_duration MultiDayTestShape)"
  shows "tick MultiDayTestShape elapsed =
           Inr (Some (max 0 (py_round (spec_desired
                  (real_of_int (py_round (elapsed * 1000000)) / 1000000))), 100))
         \<and> (elapsed * 1000000 = real_of_int \<lfloor>elapsed * 1000000\<rfloor> \<longrightarrow>
              tick MultiDayTestShape elapsed =
                Inr (Some (max 0 (py_round (spec_desired elapsed)), 100)))"
proof -
  have e: "elapsed \<le> 216000"
    using assms(2) unfolding default_run_seconds .
  have r: "tick MultiDayTestShape elapsed =
           Inr (Some (max 0 (py_round (spec_desired
                  (real_of_int (py_round (elapsed * 1000000)) / 1000000))), 100))"
    using tick_default_in_run(4) [OF assms(1) e]
    unfolding spec_desired_timedelta [unfolded total_seconds_eq] .
  have "real_of_int (py_round (elapsed * 1000000)) / 1000000 = elapsed"
    if "elapsed * 1000000 = real_of_int \<lfloor>elapsed * 1000000\<rfloor>"
    using py_round_on_grid [OF that] by simp
  then show ?thesis
    using r by simp
qed

text \<open>
  Twelve hours into the run, a whole number of microseconds at which the growth and the
  wave terms are both non-zero.
\<close>
theorem tick_formula_witness:
  "(0::real) \<le> 43200 \<and> 43200 \<le> total_seconds (run_duration MultiDayTestShape) \<and>
   (43200::real) * 1000000 = real_of_int \<lfloor>43200 * 1000000 :: real\<rfloor> \<and>
   tick MultiDayTestShape 43200 =
     Inr (Some (max 0 (py_round (spec_desired
            (real_of_int (py_round (43200 * 1000000)) / 1000000))), 100)) \<and>
   tick MultiDayTestShape 43200 = Inr (Some (max 0 (py_round (spec_desired 43200)), 100))"
proof -
  have h1: "(0::real) \<le> 43200"
    by simp
  have h2: "43200 \<le> total_seconds (run_duration MultiDayTestShape)"
    by (simp add: default_run_seconds)
  have h3: "(43200::real) * 1000000 = real_of_int \<lfloor>43200 * 1000000 :: real\<rfloor>"
    by simp
  show ?thesis
    using tick_formula [OF h1 h2] h1 h2 h3 by blast
qed

text \<open>
  C1 as stated, with the formula at the elapsed time itself, fails between the
  microseconds: at 86400 seconds less 0.4 microseconds \<open>tick\<close> returns 30 users, while
  the formula at that elapsed time gives 15.
\<close>
theorem tick_formula_counterexample:
  "(0::real) \<le> 86400 - 1 / 2500000 \<and>
   86400 - 1 / 2500000 \<le> total_seconds (run_duration MultiDayTestShape) \<and>
   tick MultiDayTestShape (86400 - 1 / 2500000) = Inr (Some (30, 100)) \<and>
   max 0 (py_round (spec_desired (86400 - 1 / 2500000))) = 15"
  using tick_before_second_noon spec_desired_before_second_noon
  by (simp add: default_run_seconds)

text \<open>
  C2, as amended. For every elapsed time strictly greater than the run duration, \<open>tick\<close>
  returns \<open>None\<close> (the run is done), whatever the configuration. The boundary itself is
  not included: the guard of \<open>tick\<close> is the strict comparison \<open>>\<close>.
\<close>
theorem tick_done_after_run_duration:
  "total_seconds (run_duration self) < elapsed \<Longrightarrow> tick self elapsed = Inr None"
  by (rule tick_past_run_duration)

text \<open>Three days exceed the default run duration of two and a half.\<close>
theorem tick_done_after_run_duration_witness:
  "total_seconds (run_duration MultiDayTestShape) < 259200 \<and>
   tick MultiDayTestShape 259200 = Inr None"
  using tick_done_after_run_duration [of MultiDayTestShape 259200]
  by (simp add: default_run_seconds)

text \<open>
  C2 as stated fails at the boundary: at an elapsed time equal to the default run duration
  (216000 seconds) \<open>tick\<close> still returns a target, 32 users at rate 100.
\<close>
theorem tick_at_run_duration_counterexample:
  "total_seconds (run_duration MultiDayTestShape) \<le> 216000 \<and>
   tick MultiDayTestShape 216000 = Inr (Some (32, 100))"
  using tick_default_at_run_duration by (simp add: default_run_seconds)

text \<open>
  C3. Once the elapsed time has exceeded the run duration, this and every later
  evaluation return \<open>None\<close>: for elapsed times \<open>e1 < e2\<close> with \<open>e1\<close> past the run
  duration, both evaluations are done and none returns a target.
\<close>
theorem done_is_terminal:
  assumes "total_seconds (run_duration self) < e1" and "e1 < e2"
  shows "tick self e1 = Inr None \<and> tick self e2 = Inr None"
  using assms by (simp add: tick_past_run_duration)

text \<open>Two successive readings just past the default run duration.\<close>
theorem done_is_terminal_witness:
  "total_seconds (run_duration MultiDayTestShape) < 216001 \<and> (216001::real) < 216002 \<and>
   tick MultiDayTestShape 216001 = Inr None \<and> tick MultiDayTestShape 216002 = Inr None"
  using done_is_terminal [of MultiDayTestShape 216001 216002]
  by (simp add: default_run_seconds)

text \<open>
  C4. For every elapsed time from 0 and strictly below the run duration, \<open>tick\<close> returns a
  target whose concurrency is a non-negative integer and whose ramp rate is 100.
\<close>
theorem tick_target_in_run:
  assumes "0 \<le> elapsed" and "elapsed < total_seconds (run_duration MultiDayTestShape)"
  shows "\<exists>c. tick MultiDayTestShape elapsed = Inr (Some (c, 100)) \<and> 0 \<le> c"
proof -
  have "elapsed \<le> 216000"
    using assms(2) unfolding default_run_seconds by simp
  then show ?thesis
    using tick_default_in_run(4) [OF assms(1)] by simp
qed

text \<open>The hypotheses of C4 hold at the start of the run.\<close>
theorem tick_target_in_run_witness:
  "(0::real) \<le> 0 \<and> 0 < total_seconds (run_duration MultiDayTestShape) \<and>
   (\<exists>c. tick MultiDayTestShape 0 = Inr (Some (c, 100)) \<and> 0 \<le> c)"
  using tick_target_in_run [of 0] by (simp add: default_run_seconds)

text \<open>
  C5. With the default constants the evaluation at elapsed time 0 sees hour 12 and 0 days
  since the reference, so that \<open>desired = 0 + 0 + 10 + 15 = 25\<close>, and returns 25 users at
  rate 100.
\<close>
theorem tick_at_start:
  "hour MultiDayTestShape 0 = Inr 12 \<and>
   days_since_ref_dt MultiDayTestShape 0 = Inr 0 \<and>
   desired_users 0 12 = 25 \<and>
   tick MultiDayTestShape 0 = Inr (Some (25, 100))"
proof -
  have td: "py_round (0 * 1000000) = 0"
    using py_round_of_int [of 0] by simp
  have d: "desired_users 0 12 = 25"
    unfolding desired_users_def extra_users_def by simp
  have r: "py_round 25 = 25"
    using py_round_of_int [of 25] by simp
  show ?thesis
    using tick_default_in_run(2,3,4) [of 0] unfolding td by (simp add: d r)
qed

text \<open>
  C6, as amended. With the default constants the evaluation at an elapsed time of 12 hours
  sees hour 0 and half a day since the reference, so that \<open>desired = 2.5 + 10 + 10 + 0 =
  22.5\<close>; Python's \<open>round\<close> takes the tie to the even neighbour, and \<open>tick\<close> returns 22
  users at rate 100.
\<close>
theorem tick_at_12_hours:
  "hour MultiDayTestShape 43200 = Inr 0 \<and>
   days_since_ref_dt MultiDayTestShape 43200 = Inr (1 / 2) \<and>
   desired_users (1 / 2) 0 = 45 / 2 \<and>
   tick MultiDayTestShape 43200 = Inr (Some (22, 100))"
  using tick_default_in_run(2,3,4) [of 43200] unfolding py_round_43200
  by (simp add: desired_users_half_day py_round_45_halves)

text \<open>C6 as stated expects 23 users, which is not what \<open>tick\<close> returns.\<close>
theorem tick_at_12_hours_counterexample:
  "tick MultiDayTestShape 43200 \<noteq> Inr (Some (23, 100))"
  using tick_default_in_run(4) [of 43200] unfolding py_round_43200
  by (simp add: desired_users_half_day py_round_45_halves)

text \<open>
  C7. The comment in \<open>tick\<close> places the peak of the sine wave at hour 12. With the default
  reference instant at 12:00 the wave is at its maximum (day fraction one half) after 12
  hours, and the hour of the virtual clock is then 0, not 12.
\<close>
theorem wave_peak_at_midnight:
  "days_since_ref_dt MultiDayTestShape 43200 = Inr (1 / 2) \<and>
   hour MultiDayTestShape 43200 = Inr 0 \<and> hour MultiDayTestShape 43200 \<noteq> Inr 12"
  using tick_default_in_run(2,3) [of 43200] unfolding py_round_43200 by simp

text \<open>
  C8, as amended. If the run duration is zero or negative, \<open>tick\<close> returns \<open>None\<close> for
  every elapsed time \<open>\<ge> 0\<close>, except in the single case that the run duration is exactly
  zero and the elapsed time is exactly zero.
\<close>
theorem nonpositive_run_duration_done:
  assumes "run_duration self \<le> 0" and "0 \<le> elapsed"
    and "run_duration self < 0 \<or> 0 < elapsed"
  shows "tick self elapsed = Inr None"
proof -
  have "total_seconds (run_duration self) < elapsed"
    using assms unfolding total_seconds_eq by (auto simp: field_simps)
  then show ?thesis
    by (rule tick_past_run_duration)
qed

text \<open>With a run duration of zero, the evaluation one second into the run is done.\<close>
theorem nonpositive_run_duration_done_witness:
  "run_duration (MultiDayTestShape\<lparr>run_duration := 0\<rparr>) \<le> 0 \<and> (0::real) \<le> 1 \<and>
   (run_duration (MultiDayTestShape\<lparr>run_duration := 0\<rparr>) < 0 \<or> (0::real) < 1) \<and>
   tick (MultiDayTestShape\<lparr>run_duration := 0\<rparr>) 1 = Inr None"
  using nonpositive_run_duration_done [of "MultiDayTestShape\<lparr>run_duration := 0\<rparr>" 1]
  by simp

text \<open>
  C8 as stated fails in the excepted case: with a run duration of zero the evaluation at
  elapsed time 0 passes the strict guard and returns 25 users at rate 100.
\<close>
theorem zero_run_duration_counterexample:
  "run_duration (MultiDayTestShape\<lparr>run_duration := 0\<rparr>) \<le> 0 \<and> (0::real) \<le> 0 \<and>
   tick (MultiDayTestShape\<lparr>run_duration := 0\<rparr>) 0 = Inr (Some (25, 100))"
  using tick_zero_duration_at_start by simp

text \<open>
  C9. For two elapsed times \<open>e1 \<le> e2\<close> within the run at which the day count has the
  same fractional part and the hours give the same extra users, both evaluations return a
  target and the concurrency at \<open>e2\<close> is at least the concurrency at \<open>e1\<close>. This holds
  for every configuration.
\<close>
theorem concurrency_monotone_in_days:
  assumes "e1 \<le> e2" and "e2 \<le> total_seconds (run_duration self)"
    and "days_since_ref_dt self e1 = Inr d1" and "days_since_ref_dt self e2 = Inr d2"
    and "d1 - real_of_int \<lfloor>d1\<rfloor> = d2 - real_of_int \<lfloor>d2\<rfloor>"
    and "hour self e1 = Inr h1" and "hour self e2 = Inr h2"
    and "extra_users h1 = extra_users h2"
  shows "\<exists>c1 c2. tick self e1 = Inr (Some (c1, 100)) \<and> tick self e2 = Inr (Some (c2, 100))
           \<and> c1 \<le> c2"
proof -
  have "e1 * 1000000 \<le> e2 * 1000000"
    using assms(1) by simp
  then have "py_round (e1 * 1000000) \<le> py_round (e2 * 1000000)"
    by (rule py_round_mono)
  then have "d1 \<le> d2"
    unfolding days_since_ref_dt_value [OF assms(3)] days_since_ref_dt_value [OF assms(4)]
    by (simp add: divide_right_mono)
  then have "desired_users d1 h1 \<le> desired_users d2 h2"
    unfolding desired_users_def using assms(5,8) by simp
  then have m: "max 0 (py_round (desired_users d1 h1)) \<le> max 0 (py_round (desired_users d2 h2))"
    using py_round_mono by fastforce
  have "e1 \<le> total_seconds (run_duration self)"
    using assms(1,2) by simp
  then have "tick self e1 = Inr (Some (max 0 (py_round (desired_users d1 h1)), 100))"
    using assms(6,3) by (rule tick_from_properties)
  moreover have "tick self e2 = Inr (Some (max 0 (py_round (desired_users d2 h2)), 100))"
    using assms(2,7,4) by (rule tick_from_properties)
  ultimately show ?thesis
    using m by simp
qed

text \<open>
  The start of the run and the same instant one day later: day fraction 0 and hour 12
  at both.
\<close>
theorem concurrency_monotone_in_days_witness:
  "(0::real) \<le> 86400 \<and> 86400 \<le> total_seconds (run_duration MultiDayTestShape) \<and>
   days_since_ref_dt MultiDayTestShape 0 = Inr 0 \<and>
   days_since_ref_dt MultiDayTestShape 86400 = Inr 1 \<and>
   (0::real) - real_of_int \<lfloor>0::real\<rfloor> = 1 - real_of_int \<lfloor>1::real\<rfloor> \<and>
   hour MultiDayTestShape 0 = Inr 12 \<and> hour MultiDayTestShape 86400 = Inr 12 \<and>
   extra_users 12 = extra_users 12 \<and>
   (\<exists>c1 c2. tick MultiDayTestShape 0 = Inr (Some (c1, 100)) \<and>
      tick MultiDayTestShape 86400 = Inr (Some (c2, 100)) \<and> c1 \<le> c2)"
proof -
  have d1: "days_since_ref_dt MultiDayTestShape 0 = Inr 0"
    and h1: "hour MultiDayTestShape 0 = Inr 12"
    using tick_default_in_run(2,3) [of 0] by (simp_all add: py_round_of_int [of 0, simplified])
  have d2: "days_since_ref_dt MultiDayTestShape 86400 = Inr 1"
    and h2: "hour MultiDayTestShape 86400 = Inr 12"
    using tick_default_in_run(2,3) [of 86400] unfolding py_round_86400 by simp_all
  have r: "86400 \<le> total_seconds (run_duration MultiDayTestShape)"
    by (simp add: default_run_seconds)
  have "\<exists>c1 c2. tick MultiDayTestShape 0 = Inr (Some (c1, 100)) \<and>
      tick MultiDayTestShape 86400 = Inr (Some (c2, 100)) \<and> c1 \<le> c2"
    by (rule concurrency_monotone_in_days [OF _ r d1 d2 _ h1 h2]) simp_all
  then show ?thesis
    using d1 d2 h1 h2 r by simp
qed

text \<open>
  C10. For every elapsed time from 0 up to the run duration, the desired number of users
  is at least 10, so is its rounding, and \<open>tick\<close> returns the rounding itself: the clamp
  \<open>max(0, .)\<close> never changes the value.
\<close>
theorem concurrency_at_least_baseline:
  assumes "0 \<le> elapsed" and "elapsed \<le> total_seconds (run_duration MultiDayTestShape)"
  shows "\<exists>d h. days_since_ref_dt MultiDayTestShape elapsed = Inr d \<and>
           hour MultiDayTestShape elapsed = Inr h \<and>
           10 \<le> desired_users d h \<and>
           10 \<le> py_round (desired_users d h) \<and>
           tick MultiDayTestShape elapsed = Inr (Some (py_round (desired_users d h), 100))"
proof -
  define td where "td = py_round (elapsed * 1000000)"
  define d where "d = real_of_int td / 86400000000"
  define h where "h = (12 + td div 3600000000) mod 24"
  have e: "elapsed \<le> 216000"
    using assms(2) unfolding default_run_seconds .
  note t = tick_default_in_run [OF assms(1) e, folded td_def, folded d_def h_def]
  have "0 \<le> td"
    unfolding td_def by (rule in_run_timedelta(2) [OF assms(1) e])
  then have "0 \<le> d"
    unfolding d_def by simp
  then have u: "10 \<le> desired_users d h"
    by (rule desired_users_ge_baseline)
  then have "real_of_int 10 \<le> desired_users d h"
    by simp
  then have r: "10 \<le> py_round (desired_users d h)"
    by (rule py_round_ge)
  then have "max 0 (py_round (desired_users d h)) = py_round (desired_users d h)"
    by simp
  then show ?thesis
    using t(2,3,4) u r by simp
qed

text \<open>The hypotheses of C10 hold at the start of the run.\<close>
theorem concurrency_at_least_baseline_witness:
  "(0::real) \<le> 0 \<and> 0 \<le> total_seconds (run_duration MultiDayTestShape) \<and>
   (\<exists>d h. days_since_ref_dt MultiDayTestShape 0 = Inr d \<and>
      hour MultiDayTestShape 0 = Inr h \<and>
      10 \<le> desired_users d h \<and>
      10 \<le> py_round (desired_users d h) \<and>
      tick MultiDayTestShape 0 = Inr (Some (py_round (desired_users d h), 100)))"
  using concurrency_at_least_baseline [of 0] by (simp add: default_run_seconds)

end
